theory Spec2Isabelle
  imports Main
begin

section \<open>Host values, native exceptions and futures\<close>

text \<open>
  The adaptor of \<^verbatim>\<open>support-lib/wasm/Future_wasm.hpp\<close> moves an eventual result between
  the native future/promise pair and the promise of the host runtime. Host values
  (\<^verbatim>\<open>em::val\<close>) are a datatype: the values the source itself builds or tests
  (\<^verbatim>\<open>undefined\<close>, instances of \<^verbatim>\<open>Error\<close>), plain data, and the two callables and
  the promise object of a host promise, named by the promise's number.
\<close>

datatype js_val =
    JsUndefined
  | JsNull
  | JsNumber int
  | JsString string
  | JsError string
  | JsResolveFunc nat
  | JsRejectFunc nat
  | JsPromise nat


text \<open>
  What a \<^verbatim>\<open>std::exception_ptr\<close> can hold: the two exceptions the source constructs
  (\<^verbatim>\<open>JsException(err)\<close> and \<^verbatim>\<open>std::runtime_error(msg)\<close>), any other class derived
  from \<^verbatim>\<open>std::exception\<close>, and a thrown object of a type outside that hierarchy.
\<close>

datatype native_exception =
    JsException js_val
  | runtime_error string
  | std_exception string
  | foreign_exception string

text \<open>Whether the handler \<^verbatim>\<open>catch (const std::exception& e)\<close> matches the exception.\<close>

fun is_std_exception :: "native_exception \<Rightarrow> bool" where
  "is_std_exception (JsException err) = True"
| "is_std_exception (runtime_error m) = True"
| "is_std_exception (std_exception m) = True"
| "is_std_exception (foreign_exception m) = False"

text \<open>The terminal state of a promise/future pair: \<^verbatim>\<open>setValue(v)\<close>, \<^verbatim>\<open>setValue()\<close>
  of \<^verbatim>\<open>Promise<void>\<close>, or \<^verbatim>\<open>setException(e)\<close>.\<close>

datatype 'c outcome = Value 'c | VoidValue | Exception native_exception

text \<open>A future is complete, or waits for the promise with the given token.\<close>

datatype 'c Future = Pending nat | Completed "'c outcome"

datatype settlement = Resolved js_val | Rejected js_val

text \<open>
  What ends a call otherwise than by returning: a native exception that propagates out of
  it, or behaviour the language leaves undefined or the host refuses (a token that is not
  a live object, a call of a host value that is not callable, a second terminal call on a
  promise, reading a future that is absent or not complete, reading a value from a
  void completion).
\<close>

datatype fault =
    Thrown native_exception
  | DanglingPointer nat
  | NotCallable js_val
  | AlreadySatisfied nat
  | NotReady
  | NoValue

section \<open>The adaptor's parameters and state\<close>

text \<open>
  The template parameter \<^verbatim>\<open>RESULT\<close>: whether \<^verbatim>\<open>RESULT::CppType\<close> is void, and the
  boxing collaborator \<^verbatim>\<open>RESULT::Boxed\<close>. Together with it, the build flag
  \<^verbatim>\<open>__EMSCRIPTEN_PTHREADS__\<close> and the conversion \<^verbatim>\<open>djinni_native_exception_to_js\<close>,
  which \<^verbatim>\<open>djinni_wasm.hpp\<close> declares. None of them is among the sources, so they are
  parameters; the two boxing functions and the conversion are taken to return.
\<close>

record 'c adaptor =
  is_void :: bool
  Boxed_toCpp :: "js_val \<Rightarrow> 'c"
  Boxed_fromCpp :: "'c \<Rightarrow> js_val"
  EMSCRIPTEN_PTHREADS :: bool
  djinni_native_exception_to_js :: "native_exception \<Rightarrow> js_val"

record 'c CppResolveHandler =
  resolveFunc :: js_val
  rejectFunc :: js_val
  future :: "'c Future option"

text \<open>
  The state the bridges act on. Heap objects are named by the integer token that crosses
  the boundary; \<open>next_addr\<close> never hands a token out twice. \<open>deleted\<close> logs every
  \<^verbatim>\<open>delete\<close>, \<open>completions\<close> every terminal call on a native promise,
  \<open>host_calls\<close> every call of a host promise's resolve or reject callable, in order.
  \<open>continuations\<close> holds the continuation attached to a pending future (the handler
  whose \<^verbatim>\<open>resolve\<close> it calls), \<open>reactions\<close> the callbacks registered on a host
  promise, \<open>main_queue\<close> the trampolines dispatched to the main runtime thread.
\<close>

record 'c world =
  next_addr :: nat
  promises :: "nat list"
  handlers :: "nat \<rightharpoonup> 'c CppResolveHandler"
  completions :: "(nat \<times> 'c outcome) list"
  continuations :: "nat \<rightharpoonup> nat"
  reactions :: "(nat \<times> nat) list"
  deleted :: "nat list"
  host_calls :: "(nat \<times> settlement) list"
  main_queue :: "nat list"

definition empty_world :: "'c world" where
  "empty_world = \<lparr> next_addr = 0, promises = [], handlers = Map.empty, completions = [],
     continuations = Map.empty, reactions = [], deleted = [], host_calls = [],
     main_queue = [] \<rparr>"

section \<open>Collaborators\<close>

text \<open>Calling a host value as a function (\<^verbatim>\<open>em::val::operator()\<close>): the resolve and reject
  callables of a host promise record the call; nothing else the model holds is callable.\<close>

fun js_call :: "js_val \<Rightarrow> js_val \<Rightarrow> 'c world \<Rightarrow> fault + 'c world" where
  "js_call (JsResolveFunc p) arg w = Inr (w\<lparr>host_calls := host_calls w @ [(p, Resolved arg)]\<rparr>)"
| "js_call (JsRejectFunc p) arg w = Inr (w\<lparr>host_calls := host_calls w @ [(p, Rejected arg)]\<rparr>)"
| "js_call f arg w = Inl (NotCallable f)"

text \<open>Modelled from the spec: \<^verbatim>\<open>Future<T>::get\<close> of \<^verbatim>\<open>Future.hpp\<close>, which is not among
  the sources: it extracts a completed future's value or raises its terminal exception.\<close>

fun get_outcome :: "'c outcome \<Rightarrow> fault + 'c" where
  "get_outcome (Value v) = Inr v"
| "get_outcome VoidValue = Inl NoValue"
| "get_outcome (Exception e) = Inl (Thrown e)"

fun ready :: "'c world \<Rightarrow> 'c Future \<Rightarrow> 'c outcome option" where
  "ready w (Completed oc) = Some oc"
| "ready w (Pending p) = map_of (completions w) p"

definition get :: "'c world \<Rightarrow> 'c Future option \<Rightarrow> fault + 'c" where
  "get w f = (case f of
      None \<Rightarrow> Inl NotReady
    | Some fut \<Rightarrow> (case ready w fut of None \<Rightarrow> Inl NotReady | Some oc \<Rightarrow> get_outcome oc))"

section \<open>Native to host: the resolve handler\<close>

text \<open>\<^verbatim>\<open>CppResolveHandler::init\<close>, called with the handler's token by the host promise's
  constructor.\<close>

definition init :: "nat \<Rightarrow> js_val \<Rightarrow> js_val \<Rightarrow> 'c world \<Rightarrow> fault + 'c world" where
  "init context resolveFunc' rejectFunc' w = (case handlers w context of
      None \<Rightarrow> Inl (DanglingPointer context)
    | Some this \<Rightarrow> Inr (w\<lparr>handlers := (handlers w)(context \<mapsto>
        this\<lparr>resolveFunc := resolveFunc', rejectFunc := rejectFunc'\<rparr>)\<rparr>))"

text \<open>The body of the \<^verbatim>\<open>try\<close> block of \<^verbatim>\<open>doResolve\<close>. The void branch does not read
  the future.\<close>

definition doResolve_try :: "'c adaptor \<Rightarrow> 'c CppResolveHandler \<Rightarrow> 'c world \<Rightarrow> fault + 'c world" where
  "doResolve_try A this w =
     (if is_void A then js_call (resolveFunc this) JsUndefined w
      else (case get w (future this) of
              Inl f \<Rightarrow> Inl f
            | Inr v \<Rightarrow> js_call (resolveFunc this) (Boxed_fromCpp A v) w))"

text \<open>\<^verbatim>\<open>doResolve\<close>: the handler \<^verbatim>\<open>catch (const std::exception& e)\<close> takes the exceptions
  derived from \<^verbatim>\<open>std::exception\<close>; anything else leaves the function.\<close>

definition doResolve :: "'c adaptor \<Rightarrow> 'c CppResolveHandler \<Rightarrow> 'c world \<Rightarrow> fault + 'c world" where
  "doResolve A this w = (case doResolve_try A this w of
      Inl (Thrown e) \<Rightarrow>
        (if is_std_exception e
         then js_call (rejectFunc this) (djinni_native_exception_to_js A e) w
         else Inl (Thrown e))
    | Inl f \<Rightarrow> Inl f
    | Inr w' \<Rightarrow> Inr w')"

text \<open>\<^verbatim>\<open>trampoline\<close>: \<^verbatim>\<open>doResolve\<close>, then \<^verbatim>\<open>delete pthis\<close>; an exception that leaves
  \<^verbatim>\<open>doResolve\<close> skips the \<^verbatim>\<open>delete\<close>.\<close>

definition delete_handler :: "nat \<Rightarrow> 'c world \<Rightarrow> 'c world" where
  "delete_handler a w = w\<lparr>handlers := (handlers w)(a := None), deleted := deleted w @ [a]\<rparr>"

definition trampoline :: "'c adaptor \<Rightarrow> nat \<Rightarrow> 'c world \<Rightarrow> fault + 'c world" where
  "trampoline A context w = (case handlers w context of
      None \<Rightarrow> Inl (DanglingPointer context)
    | Some pthis \<Rightarrow> (case doResolve A pthis w of
          Inl f \<Rightarrow> Inl f
        | Inr w' \<Rightarrow> Inr (delete_handler context w')))"

text \<open>\<^verbatim>\<open>resolve\<close>: stores the future; with pthreads the trampoline is dispatched to the
  main runtime thread, otherwise it is called here.\<close>

definition resolve :: "'c adaptor \<Rightarrow> nat \<Rightarrow> 'c Future \<Rightarrow> 'c world \<Rightarrow> fault + 'c world" where
  "resolve A context fut w = (case handlers w context of
      None \<Rightarrow> Inl (DanglingPointer context)
    | Some this \<Rightarrow>
        (let w1 = w\<lparr>handlers := (handlers w)(context \<mapsto> this\<lparr>future := Some fut\<rparr>)\<rparr>
         in if EMSCRIPTEN_PTHREADS A
            then Inr (w1\<lparr>main_queue := main_queue w1 @ [context]\<rparr>)
            else trampoline A context w1))"

text \<open>The main runtime thread runs the trampolines dispatched to it, in order.\<close>

fun run_trampolines :: "'c adaptor \<Rightarrow> nat list \<Rightarrow> 'c world \<Rightarrow> fault + 'c world" where
  "run_trampolines A [] w = Inr w"
| "run_trampolines A (h # hs) w = (case trampoline A h w of
      Inl f \<Rightarrow> Inl f
    | Inr w' \<Rightarrow> run_trampolines A hs w')"

definition main_thread_turn :: "'c adaptor \<Rightarrow> 'c world \<Rightarrow> fault + 'c world" where
  "main_thread_turn A w = run_trampolines A (main_queue w) (w\<lparr>main_queue := []\<rparr>)"

section \<open>Native to host: the bridge\<close>

text \<open>Modelled from the spec: \<^verbatim>\<open>Future<T>::then\<close> of \<^verbatim>\<open>Future.hpp\<close>, which is not among
  the sources. It attaches the one continuation of the bridge, the lambda of
  \<^verbatim>\<open>fromCpp\<close> that calls \<^verbatim>\<open>resolve\<close> on the handler: a complete future runs it at
  once (the spec has the bridge of an already failed future return a promise that is
  already on its rejection path), a pending future keeps it until its promise
  completes.\<close>

definition then_resolve :: "'c adaptor \<Rightarrow> 'c Future \<Rightarrow> nat \<Rightarrow> 'c world \<Rightarrow> fault + 'c world" where
  "then_resolve A c cppResolveHandler w = (case c of
      Completed oc \<Rightarrow> resolve A cppResolveHandler (Completed oc) w
    | Pending p \<Rightarrow> (case map_of (completions w) p of
          Some oc \<Rightarrow> resolve A cppResolveHandler (Completed oc) w
        | None \<Rightarrow> Inr (w\<lparr>continuations := (continuations w)(p \<mapsto> cppResolveHandler)\<rparr>)))"

text \<open>Modelled from the spec: the constructor of the host class
  \<^verbatim>\<open>DjinniJsPromiseBuilder\<close>, which is not among the sources. It makes a host promise
  and calls \<^verbatim>\<open>init\<close> on the handler with the promise's resolve and reject callables,
  before it returns.\<close>

definition DjinniJsPromiseBuilder_new :: "nat \<Rightarrow> 'c world \<Rightarrow> fault + (nat \<times> 'c world)" where
  "DjinniJsPromiseBuilder_new context w =
     (let pid = next_addr w;
          w1 = w\<lparr>next_addr := Suc pid\<rparr>
      in case init context (JsResolveFunc pid) (JsRejectFunc pid) w1 of
           Inl f \<Rightarrow> Inl f
         | Inr w2 \<Rightarrow> Inr (pid, w2))"

definition new_CppResolveHandler :: "'c world \<Rightarrow> nat \<times> 'c world" where
  "new_CppResolveHandler w =
     (next_addr w,
      w\<lparr>next_addr := Suc (next_addr w),
        handlers := (handlers w)(next_addr w \<mapsto>
          \<lparr>resolveFunc = JsUndefined, rejectFunc = JsUndefined, future = None\<rparr>)\<rparr>)"

text \<open>\<^verbatim>\<open>fromCpp\<close>: returns \<^verbatim>\<open>jsPromiseBuilder["promise"]\<close>.\<close>

definition fromCpp :: "'c adaptor \<Rightarrow> 'c Future \<Rightarrow> 'c world \<Rightarrow> fault + (js_val \<times> 'c world)" where
  "fromCpp A c w =
     (case new_CppResolveHandler w of (cppResolveHandler, w1) \<Rightarrow>
        (case DjinniJsPromiseBuilder_new cppResolveHandler w1 of
           Inl f \<Rightarrow> Inl f
         | Inr (jsPromiseBuilder, w2) \<Rightarrow>
             (case then_resolve A c cppResolveHandler w2 of
                Inl f \<Rightarrow> Inl f
              | Inr w3 \<Rightarrow> Inr (JsPromise jsPromiseBuilder, w3))))"

text \<open>Modelled from the spec: \<^verbatim>\<open>Promise<T>::reject\<close> of \<^verbatim>\<open>Future.hpp\<close>, which is not
  among the sources: an already failed future made from a captured exception.\<close>

definition Promise_reject :: "native_exception \<Rightarrow> 'c Future" where
  "Promise_reject e = Completed (Exception e)"

text \<open>\<^verbatim>\<open>handleNativeException\<close>. Its first argument here is the exception being handled
  when it is called, which \<^verbatim>\<open>std::current_exception()\<close> reads; the second is the
  parameter \<^verbatim>\<open>e\<close> of the source.\<close>

definition handleNativeException ::
    "'c adaptor \<Rightarrow> native_exception \<Rightarrow> native_exception \<Rightarrow> 'c world \<Rightarrow> fault + (js_val \<times> 'c world)" where
  "handleNativeException A current_exception e w =
     (let r = Promise_reject current_exception in fromCpp A r w)"

section \<open>Host to native\<close>

text \<open>Modelled from the spec: \<^verbatim>\<open>Promise<T>::setValue\<close> and \<^verbatim>\<open>setException\<close> of
  \<^verbatim>\<open>Future.hpp\<close>, which is not among the sources: the one terminal call of a promise.
  It completes the paired future and runs the continuation attached to it, if any; a
  second terminal call is a caller error.\<close>

definition Promise_complete :: "'c adaptor \<Rightarrow> nat \<Rightarrow> 'c outcome \<Rightarrow> 'c world \<Rightarrow> fault + 'c world" where
  "Promise_complete A p oc w = (case map_of (completions w) p of
      Some old \<Rightarrow> Inl (AlreadySatisfied p)
    | None \<Rightarrow>
        (let w1 = w\<lparr>completions := completions w @ [(p, oc)]\<rparr>
         in case continuations w p of
              None \<Rightarrow> Inr w1
            | Some h \<Rightarrow> resolve A h (Completed oc)
                (w1\<lparr>continuations := (continuations w)(p := None)\<rparr>)))"










section \<open>Sample collaborators\<close>

text \<open>An instance of the template for concrete runs: a 32-bit integer result boxed as a
  host number, and an exception conversion that makes an \<^verbatim>\<open>Error\<close> from
  \<^verbatim>\<open>e.what()\<close>.\<close>

fun what :: "native_exception \<Rightarrow> string" where
  "what (JsException (JsError m)) = m"
| "what (JsException v) = []"
| "what (runtime_error m) = m"
| "what (std_exception m) = m"
| "what (foreign_exception m) = m"

fun number_toCpp :: "js_val \<Rightarrow> int" where
  "number_toCpp (JsNumber n) = n"
| "number_toCpp v = 0"

definition error_of_exception :: "native_exception \<Rightarrow> js_val" where
  "error_of_exception e = JsError (what e)"

definition sample_adaptor :: "bool \<Rightarrow> bool \<Rightarrow> int adaptor" where
  "sample_adaptor void pthreads =
     \<lparr> is_void = void, Boxed_toCpp = number_toCpp, Boxed_fromCpp = JsNumber,
       EMSCRIPTEN_PTHREADS = pthreads, djinni_native_exception_to_js = error_of_exception \<rparr>"

section \<open>Basic facts about the resolve handler\<close>

lemma js_call_not_thrown: "js_call f a w \<noteq> Inl (Thrown e)"
  by (cases f) simp_all

lemma doResolve_void:
  "is_void A \<Longrightarrow> doResolve A this w = js_call (resolveFunc this) JsUndefined w"
  by (cases "resolveFunc this") (simp_all add: doResolve_def doResolve_try_def)

lemma doResolve_value:
  "\<not> is_void A \<Longrightarrow> future this = Some (Completed (Value v)) \<Longrightarrow>
     doResolve A this w = js_call (resolveFunc this) (Boxed_fromCpp A v) w"
  by (cases "resolveFunc this") (simp_all add: doResolve_def doResolve_try_def get_def)

lemma doResolve_std_exception:
  "\<not> is_void A \<Longrightarrow> future this = Some (Completed (Exception e)) \<Longrightarrow> is_std_exception e \<Longrightarrow>
     doResolve A this w = js_call (rejectFunc this) (djinni_native_exception_to_js A e) w"
  by (simp add: doResolve_def doResolve_try_def get_def)

lemma doResolve_foreign_exception:
  "\<not> is_void A \<Longrightarrow> future this = Some (Completed (Exception e)) \<Longrightarrow> \<not> is_std_exception e \<Longrightarrow>
     doResolve A this w = Inl (Thrown e)"
  by (simp add: doResolve_def doResolve_try_def get_def)

lemma trampoline_live:
  "handlers w h = Some this \<Longrightarrow>
     trampoline A h w =
       (case doResolve A this w of Inl f \<Rightarrow> Inl f | Inr w' \<Rightarrow> Inr (delete_handler h w'))"
  by (simp add: trampoline_def)

text \<open>\<^verbatim>\<open>fromCpp\<close> up to the point where the continuation is attached: the handler is
  allocated at the next token and holds the callables of the promise made right after
  it.\<close>

lemma fromCpp_setup:
  "fromCpp A c w =
     (case then_resolve A c (next_addr w)
        (w\<lparr>next_addr := Suc (Suc (next_addr w)),
           handlers := (handlers w)(next_addr w \<mapsto>
             \<lparr>resolveFunc = JsResolveFunc (Suc (next_addr w)),
              rejectFunc = JsRejectFunc (Suc (next_addr w)), future = None\<rparr>)\<rparr>) of
        Inl f \<Rightarrow> Inl f
      | Inr w3 \<Rightarrow> Inr (JsPromise (Suc (next_addr w)), w3))"
  by (simp add: fromCpp_def new_CppResolveHandler_def DjinniJsPromiseBuilder_new_def init_def Let_def)

lemma fromCpp_completed_inline:
  "\<not> EMSCRIPTEN_PTHREADS A \<Longrightarrow>
   fromCpp A (Completed oc) w =
     (case doResolve A \<lparr>resolveFunc = JsResolveFunc (Suc (next_addr w)),
              rejectFunc = JsRejectFunc (Suc (next_addr w)), future = Some (Completed oc)\<rparr>
            (w\<lparr>next_addr := Suc (Suc (next_addr w)),
               handlers := (handlers w)(next_addr w \<mapsto>
                 \<lparr>resolveFunc = JsResolveFunc (Suc (next_addr w)),
                  rejectFunc = JsRejectFunc (Suc (next_addr w)), future = Some (Completed oc)\<rparr>)\<rparr>) of
        Inl f \<Rightarrow> Inl f
      | Inr w' \<Rightarrow> Inr (JsPromise (Suc (next_addr w)), delete_handler (next_addr w) w'))"
  by (simp add: fromCpp_setup then_resolve_def resolve_def trampoline_def Let_def split: sum.splits)

lemma fromCpp_completed_dispatched:
  "EMSCRIPTEN_PTHREADS A \<Longrightarrow>
   fromCpp A (Completed oc) w =
     Inr (JsPromise (Suc (next_addr w)),
          w\<lparr>next_addr := Suc (Suc (next_addr w)),
            handlers := (handlers w)(next_addr w \<mapsto>
              \<lparr>resolveFunc = JsResolveFunc (Suc (next_addr w)),
               rejectFunc = JsRejectFunc (Suc (next_addr w)), future = Some (Completed oc)\<rparr>),
            main_queue := main_queue w @ [next_addr w]\<rparr>)"
  by (simp add: fromCpp_setup then_resolve_def resolve_def Let_def)

section \<open>Native to host: settlement\<close>

text \<open>
  C1. The claim: for every result type, void included, a future that completed with a
  native exception makes the trampoline call the stored reject callable with the
  converted error and never the resolve callable, so that the exception adaptation path
  yields a host promise rejected exactly once. For the void result type the code does
  otherwise: the void branch of \<^verbatim>\<open>doResolve\<close> never reads the future, so the resolve
  callable is called with \<^verbatim>\<open>undefined\<close> and the reject callable is not called, whatever
  exception the future carries; \<^verbatim>\<open>handleNativeException\<close> for a void result returns a
  promise that has been resolved.
\<close>

theorem void_exception_resolves:
  "doResolve (A\<lparr>is_void := True\<rparr>)
      \<lparr>resolveFunc = JsResolveFunc p, rejectFunc = JsRejectFunc p,
       future = Some (Completed (Exception e))\<rparr> w
     = Inr (w\<lparr>host_calls := host_calls w @ [(p, Resolved JsUndefined)]\<rparr>)
   \<and> map_sum id (\<lambda>r. (fst r, host_calls (snd r)))
       (handleNativeException (sample_adaptor True False) (runtime_error ''boom'')
          (runtime_error ''boom'') empty_world)
     = Inr (JsPromise 1, [(1, Resolved JsUndefined)])"
  by (simp add: doResolve_void handleNativeException_def Promise_reject_def
      fromCpp_completed_inline sample_adaptor_def empty_world_def delete_handler_def)

text \<open>
  C2. For a result type that is not void and every value \<open>v\<close>, \<^verbatim>\<open>fromCpp\<close> of a future
  already completed with \<open>v\<close> returns the builder's promise, and once the main runtime
  thread has run what was dispatched to it (nothing, in a build without pthreads), the
  promise's resolve callable has been called with \<^verbatim>\<open>RESULT::Boxed::fromCpp(v)\<close>. That is
  the only call of a host callable the bridge makes; its handler is gone and nothing
  remains queued that could settle the promise again.
\<close>

theorem fromCpp_fulfils_with_boxed_value:
  assumes "\<not> is_void A" and "main_queue w = []"
  shows "\<exists>w1 w2. fromCpp A (Completed (Value v)) w = Inr (JsPromise (Suc (next_addr w)), w1)
           \<and> main_thread_turn A w1 = Inr w2
           \<and> host_calls w2 = host_calls w @ [(Suc (next_addr w), Resolved (Boxed_fromCpp A v))]
           \<and> handlers w2 (next_addr w) = None \<and> main_queue w2 = []"
proof (cases "EMSCRIPTEN_PTHREADS A")
  case True
  with assms show ?thesis
    by (simp add: fromCpp_completed_dispatched main_thread_turn_def trampoline_live
        doResolve_value delete_handler_def)
next
  case False
  with assms show ?thesis
    by (simp add: fromCpp_completed_inline main_thread_turn_def
        doResolve_value delete_handler_def)
qed

theorem fromCpp_fulfils_with_boxed_value_witness:
  "\<not> is_void (sample_adaptor False True) \<and> main_queue (empty_world :: int world) = []
   \<and> (\<exists>w1 w2. fromCpp (sample_adaptor False True) (Completed (Value 7)) empty_world
                  = Inr (JsPromise 1, w1)
        \<and> main_thread_turn (sample_adaptor False True) w1 = Inr w2
        \<and> host_calls w2 = [(1, Resolved (JsNumber 7))])"
proof -
  have a: "\<not> is_void (sample_adaptor False True)"
    by (simp add: sample_adaptor_def)
  have q: "main_queue (empty_world :: int world) = []"
    by (simp add: empty_world_def)
  from fromCpp_fulfils_with_boxed_value [OF a q, of 7]
  obtain w1 w2 where
    "fromCpp (sample_adaptor False True) (Completed (Value 7)) empty_world
       = Inr (JsPromise (Suc (next_addr (empty_world :: int world))), w1)"
    and "main_thread_turn (sample_adaptor False True) w1 = Inr w2"
    and "host_calls w2 = host_calls (empty_world :: int world)
           @ [(Suc (next_addr (empty_world :: int world)),
               Resolved (Boxed_fromCpp (sample_adaptor False True) 7))]"
    by blast
  then have "fromCpp (sample_adaptor False True) (Completed (Value 7)) empty_world
       = Inr (JsPromise 1, w1)
     \<and> main_thread_turn (sample_adaptor False True) w1 = Inr w2
     \<and> host_calls w2 = [(1, Resolved (JsNumber 7))]"
    by (simp add: empty_world_def sample_adaptor_def)
  with a q show ?thesis by blast
qed

text \<open>
  C7. The claim: every terminal exception of any type carried by the bridged future is
  caught inside \<^verbatim>\<open>doResolve\<close> and converted to a host rejection. The handler of
  \<^verbatim>\<open>doResolve\<close> is \<^verbatim>\<open>catch (const std::exception&)\<close>: an exception of a type outside
  that hierarchy leaves \<^verbatim>\<open>doResolve\<close>, the trampoline and, in a build without pthreads,
  \<^verbatim>\<open>fromCpp\<close> itself.
\<close>

theorem foreign_exception_escapes:
  "doResolve (sample_adaptor False False)
      \<lparr>resolveFunc = JsResolveFunc 1, rejectFunc = JsRejectFunc 1,
       future = Some (Completed (Exception (foreign_exception ''not std'')))\<rparr> empty_world
     = Inl (Thrown (foreign_exception ''not std''))
   \<and> fromCpp (sample_adaptor False False) (Completed (Exception (foreign_exception ''not std'')))
       empty_world = Inl (Thrown (foreign_exception ''not std''))"
  by (simp add: doResolve_foreign_exception fromCpp_completed_inline sample_adaptor_def)

text \<open>
  C7, as amended. For a result type that is not void and every native exception derived
  from \<^verbatim>\<open>std::exception\<close> carried by the future of a live handler, \<^verbatim>\<open>doResolve\<close>
  catches the exception and calls the stored reject callable with the converted error:
  it returns, and so does the trampoline, which then deletes the handler.
\<close>

theorem doResolve_converts_std_exception:
  assumes "\<not> is_void A" and "is_std_exception e"
    and "handlers w h = Some this"
    and "future this = Some (Completed (Exception e))"
    and "rejectFunc this = JsRejectFunc p"
  shows "doResolve A this w
           = Inr (w\<lparr>host_calls := host_calls w @ [(p, Rejected (djinni_native_exception_to_js A e))]\<rparr>)
     \<and> trampoline A h w
           = Inr (delete_handler h
               (w\<lparr>host_calls := host_calls w @ [(p, Rejected (djinni_native_exception_to_js A e))]\<rparr>))"
  using assms by (simp add: trampoline_live doResolve_std_exception)

theorem doResolve_converts_std_exception_witness:
  "\<not> is_void (sample_adaptor False False) \<and> is_std_exception (runtime_error ''boom'')
   \<and> trampoline (sample_adaptor False False) 0
        (empty_world\<lparr>handlers := [0 \<mapsto> \<lparr>resolveFunc = JsResolveFunc 1,
            rejectFunc = JsRejectFunc 1,
            future = Some (Completed (Exception (runtime_error ''boom'')))\<rparr>]\<rparr>)
      = Inr (delete_handler 0 (empty_world\<lparr>handlers := [0 \<mapsto> \<lparr>resolveFunc = JsResolveFunc 1,
            rejectFunc = JsRejectFunc 1,
            future = Some (Completed (Exception (runtime_error ''boom'')))\<rparr>],
            host_calls := [(1, Rejected (JsError ''boom''))]\<rparr>))"
  using doResolve_converts_std_exception [of "sample_adaptor False False" "runtime_error ''boom''"
      "empty_world\<lparr>handlers := [0 \<mapsto> \<lparr>resolveFunc = JsResolveFunc 1,
            rejectFunc = JsRejectFunc 1,
            future = Some (Completed (Exception (runtime_error ''boom'')))\<rparr>]\<rparr>" 0
      "\<lparr>resolveFunc = JsResolveFunc 1, rejectFunc = JsRejectFunc 1,
            future = Some (Completed (Exception (runtime_error ''boom'')))\<rparr>" 1]
  by (simp add: sample_adaptor_def empty_world_def error_of_exception_def)

text \<open>
  C8. The claim: the promise \<^verbatim>\<open>fromCpp\<close> returns is still unsettled when \<^verbatim>\<open>fromCpp\<close>
  returns, for every input future. In a build without pthreads a future that is already
  complete runs the continuation, and with it the trampoline, inside \<^verbatim>\<open>fromCpp\<close>: the
  resolve callable has been called before \<^verbatim>\<open>fromCpp\<close> returns.
\<close>

theorem settled_before_return:
  "map_sum id (host_calls \<circ> snd)
     (fromCpp (sample_adaptor False False) (Completed (Value 7)) empty_world)
   = Inr [(1, Resolved (JsNumber 7))]"
  by (simp add: fromCpp_completed_inline doResolve_value sample_adaptor_def empty_world_def
      delete_handler_def)

text \<open>
  C8, as amended. \<^verbatim>\<open>fromCpp\<close> returns the promise of the builder it made. When the input
  future is still pending, or the build has pthreads and so only dispatches the
  trampoline, neither callable of a host promise has been called when \<^verbatim>\<open>fromCpp\<close>
  returns.
\<close>

theorem fromCpp_returns_unsettled_promise:
  assumes "ready w c = None \<or> EMSCRIPTEN_PTHREADS A"
  shows "\<exists>w'. fromCpp A c w = Inr (JsPromise (Suc (next_addr w)), w')
           \<and> host_calls w' = host_calls w"
proof (cases c)
  case (Pending p)
  with assms show ?thesis
    by (auto simp add: fromCpp_setup then_resolve_def resolve_def Let_def split: option.splits)
next
  case (Completed oc)
  with assms show ?thesis
    by (simp add: fromCpp_completed_dispatched)
qed

theorem fromCpp_returns_unsettled_promise_witness:
  "ready (empty_world :: int world) (Pending 5) = None
   \<and> map_sum id (\<lambda>r. (fst r, host_calls (snd r), continuations (snd r) 5))
        (fromCpp (sample_adaptor False False) (Pending 5) empty_world)
      = Inr (JsPromise 1, [], Some 0)
   \<and> EMSCRIPTEN_PTHREADS (sample_adaptor False True)
   \<and> map_sum id (\<lambda>r. (fst r, host_calls (snd r), main_queue (snd r)))
        (fromCpp (sample_adaptor False True) (Completed (Value 7)) empty_world)
      = Inr (JsPromise 1, [], [0])"
  using fromCpp_returns_unsettled_promise
      [of "empty_world :: int world" "Pending 5" "sample_adaptor False False"]
    fromCpp_returns_unsettled_promise
      [of "empty_world :: int world" "Completed (Value 7)" "sample_adaptor False True"]
  by (auto simp add: fromCpp_setup then_resolve_def resolve_def Let_def sample_adaptor_def
      empty_world_def)

section \<open>Host to native: the settlement callbacks\<close>






section \<open>Exception adaptation\<close>

text \<open>
  C10. \<^verbatim>\<open>handleNativeException\<close> builds the rejected future from
  \<^verbatim>\<open>std::current_exception()\<close>, the exception being handled when it is called, and
  never from its argument \<open>e\<close>: the result is \<^verbatim>\<open>fromCpp\<close> of a future failed with the
  current exception and is the same for every argument. For a result type that is not
  void and a current exception derived from \<^verbatim>\<open>std::exception\<close>, the promise it returns
  is rejected with the conversion of the current exception, whatever \<open>e\<close> is.
\<close>

theorem handleNativeException_ignores_argument:
  "handleNativeException A current e w = fromCpp A (Completed (Exception current)) w
   \<and> handleNativeException A current e w = handleNativeException A current e' w
   \<and> (\<not> is_void A \<and> is_std_exception current \<and> main_queue w = [] \<longrightarrow>
        (\<exists>w1 w2. handleNativeException A current e w = Inr (JsPromise (Suc (next_addr w)), w1)
           \<and> main_thread_turn A w1 = Inr w2
           \<and> host_calls w2 = host_calls w @
               [(Suc (next_addr w), Rejected (djinni_native_exception_to_js A current))]))"
proof (cases "EMSCRIPTEN_PTHREADS A")
  case True
  then show ?thesis
    by (simp add: handleNativeException_def Promise_reject_def fromCpp_completed_dispatched
        main_thread_turn_def trampoline_live doResolve_std_exception delete_handler_def)
next
  case False
  then show ?thesis
    by (simp add: handleNativeException_def Promise_reject_def fromCpp_completed_inline
        main_thread_turn_def doResolve_std_exception delete_handler_def)
qed

theorem handleNativeException_ignores_argument_witness:
  "\<not> is_void (sample_adaptor False False) \<and> is_std_exception (runtime_error ''in flight'')
   \<and> main_queue (empty_world :: int world) = []
   \<and> map_sum id (\<lambda>r. (fst r, host_calls (snd r)))
        (handleNativeException (sample_adaptor False False) (runtime_error ''in flight'')
           (std_exception ''argument'') empty_world)
      = Inr (JsPromise 1, [(1, Rejected (JsError ''in flight''))])"
  using handleNativeException_ignores_argument
      [of "sample_adaptor False False" "runtime_error ''in flight''" "std_exception ''argument''"
          "empty_world :: int world" "std_exception ''argument''"]
  by (simp add: handleNativeException_def Promise_reject_def fromCpp_completed_inline
      doResolve_std_exception delete_handler_def sample_adaptor_def empty_world_def
      error_of_exception_def)


section \<open>Shared facts about the two bridges\<close>








section \<open>The void result type\<close>














section \<open>Lifetime of the heap objects\<close>




section \<open>Dispatch to the main runtime thread\<close>

text \<open>
  C9. The claim: for every bridge instance the trampoline is dispatched to the main
  runtime thread rather than called directly by the code that saw the future complete. In
  a build without pthreads \<^verbatim>\<open>resolve\<close> takes the \<^verbatim>\<open>#else\<close> branch and calls the
  trampoline itself: the resolve callable has been called, and the handler deleted,
  when \<^verbatim>\<open>resolve\<close> returns, and nothing has been dispatched.
\<close>

theorem resolve_calls_trampoline_directly:
  "map_sum id (\<lambda>w'. (host_calls w', main_queue w', deleted w'))
     (resolve (sample_adaptor False False) 0 (Completed (Value 7))
        (empty_world\<lparr>next_addr := 2,
           handlers := [0 \<mapsto> \<lparr>resolveFunc = JsResolveFunc 1, rejectFunc = JsRejectFunc 1,
             future = None\<rparr>]\<rparr>))
   = Inr ([(1, Resolved (JsNumber 7))], [], [0])"
  by (simp add: resolve_def trampoline_live doResolve_value delete_handler_def
      sample_adaptor_def empty_world_def Let_def)

text \<open>
  C9, as amended. In a build with pthreads no code that may run where the native future
  completes calls a host callable: \<^verbatim>\<open>resolve\<close> on a live handler stores the future
  and appends the handler's trampoline to what the main runtime thread is to run, and
  does nothing else; so \<^verbatim>\<open>fromCpp\<close>, for every input future, and the terminal call of
  a native promise whose future has been bridged return without any call of a resolve or
  reject callable, the trampoline being dispatched. The stored callables are called only
  by the trampoline, when the main runtime thread runs it.
\<close>

theorem pthreads_resolve_only_dispatches:
  assumes "EMSCRIPTEN_PTHREADS A"
    and "handlers w h = Some this"
    and "map_of (completions w) q = None"
    and "continuations w q = Some h"
  shows "resolve A h fut w
           = Inr (w\<lparr>handlers := (handlers w)(h \<mapsto> this\<lparr>future := Some fut\<rparr>),
                   main_queue := main_queue w @ [h]\<rparr>)
     \<and> (\<exists>w'. fromCpp A c w = Inr (JsPromise (Suc (next_addr w)), w')
           \<and> host_calls w' = host_calls w)
     \<and> (\<exists>w'. fromCpp A (Completed oc) w = Inr (JsPromise (Suc (next_addr w)), w')
           \<and> host_calls w' = host_calls w
           \<and> main_queue w' = main_queue w @ [next_addr w])
     \<and> (\<exists>w'. Promise_complete A q oc w = Inr w'
           \<and> host_calls w' = host_calls w
           \<and> main_queue w' = main_queue w @ [h])"
proof -
  have first: "resolve A h fut w
           = Inr (w\<lparr>handlers := (handlers w)(h \<mapsto> this\<lparr>future := Some fut\<rparr>),
                   main_queue := main_queue w @ [h]\<rparr>)"
    using assms(1,2) by (simp add: resolve_def Let_def)
  have second: "\<exists>w'. fromCpp A c w = Inr (JsPromise (Suc (next_addr w)), w')
           \<and> host_calls w' = host_calls w"
  proof (cases c)
    case (Pending p)
    with assms(1) show ?thesis
      by (auto simp add: fromCpp_setup then_resolve_def resolve_def Let_def split: option.splits)
  next
    case (Completed oc')
    with assms(1) show ?thesis
      by (simp add: fromCpp_completed_dispatched)
  qed
  have third: "\<exists>w'. fromCpp A (Completed oc) w = Inr (JsPromise (Suc (next_addr w)), w')
           \<and> host_calls w' = host_calls w
           \<and> main_queue w' = main_queue w @ [next_addr w]"
    using assms(1) by (simp add: fromCpp_completed_dispatched)
  have fourth: "\<exists>w'. Promise_complete A q oc w = Inr w'
           \<and> host_calls w' = host_calls w
           \<and> main_queue w' = main_queue w @ [h]"
    using assms by (simp add: Promise_complete_def resolve_def Let_def)
  from first second third fourth show ?thesis
    by blast
qed

theorem pthreads_resolve_only_dispatches_witness:
  "EMSCRIPTEN_PTHREADS (sample_adaptor False True)
   \<and> handlers (empty_world\<lparr>next_addr := 2,
         handlers := [0 \<mapsto> \<lparr>resolveFunc = JsResolveFunc 1, rejectFunc = JsRejectFunc 1,
           future = None\<rparr>],
         continuations := [5 \<mapsto> 0]\<rparr> :: int world) 0
       = Some \<lparr>resolveFunc = JsResolveFunc 1, rejectFunc = JsRejectFunc 1, future = None\<rparr>
   \<and> map_of (completions (empty_world\<lparr>next_addr := 2,
         handlers := [0 \<mapsto> \<lparr>resolveFunc = JsResolveFunc 1, rejectFunc = JsRejectFunc 1,
           future = None\<rparr>],
         continuations := [5 \<mapsto> 0]\<rparr> :: int world)) 5 = None
   \<and> continuations (empty_world\<lparr>next_addr := 2,
         handlers := [0 \<mapsto> \<lparr>resolveFunc = JsResolveFunc 1, rejectFunc = JsRejectFunc 1,
           future = None\<rparr>],
         continuations := [5 \<mapsto> 0]\<rparr> :: int world) 5 = Some 0
   \<and> map_sum id (\<lambda>w'. (host_calls w', main_queue w', deleted w'))
        (resolve (sample_adaptor False True) 0 (Completed (Value 7))
           (empty_world\<lparr>next_addr := 2,
              handlers := [0 \<mapsto> \<lparr>resolveFunc = JsResolveFunc 1, rejectFunc = JsRejectFunc 1,
                future = None\<rparr>],
              continuations := [5 \<mapsto> 0]\<rparr>))
      = Inr ([], [0], [])
   \<and> map_sum id (\<lambda>w'. (host_calls w', main_queue w', completions w'))
        (Promise_complete (sample_adaptor False True) 5 (Value 7)
           (empty_world\<lparr>next_addr := 2,
              handlers := [0 \<mapsto> \<lparr>resolveFunc = JsResolveFunc 1, rejectFunc = JsRejectFunc 1,
                future = None\<rparr>],
              continuations := [5 \<mapsto> 0]\<rparr>))
      = Inr ([], [0], [(5, Value 7)])"
proof -
  let ?A = "sample_adaptor False True"
  let ?H = "\<lparr>resolveFunc = JsResolveFunc 1, rejectFunc = JsRejectFunc 1, future = None\<rparr>
            :: int CppResolveHandler"
  let ?w = "empty_world\<lparr>next_addr := 2, handlers := [0 \<mapsto> ?H],
              continuations := [5 \<mapsto> 0]\<rparr> :: int world"
  have a: "EMSCRIPTEN_PTHREADS ?A"
    by (simp add: sample_adaptor_def)
  have h: "handlers ?w 0 = Some ?H"
    by simp
  have c: "map_of (completions ?w) 5 = None"
    by (simp add: empty_world_def)
  have k: "continuations ?w 5 = Some 0"
    by simp
  from pthreads_resolve_only_dispatches [OF a h c k, of "Completed (Value 7)" _ "Value 7"]
  have r: "resolve ?A 0 (Completed (Value 7)) ?w
             = Inr (?w\<lparr>handlers := (handlers ?w)(0 \<mapsto> ?H\<lparr>future := Some (Completed (Value 7))\<rparr>),
                     main_queue := main_queue ?w @ [0]\<rparr>)"
    and "\<exists>w'. Promise_complete ?A 5 (Value 7) ?w = Inr w'
           \<and> host_calls w' = host_calls ?w \<and> main_queue w' = main_queue ?w @ [0]"
    by blast+
  then obtain w' where p: "Promise_complete ?A 5 (Value 7) ?w = Inr w'"
      "host_calls w' = host_calls ?w" "main_queue w' = main_queue ?w @ [0]"
    by blast
  have "completions w' = [(5, Value 7)]"
    using p(1) a by (simp add: Promise_complete_def resolve_def Let_def empty_world_def)
      (auto simp add: empty_world_def)
  with p have "map_sum id (\<lambda>w'. (host_calls w', main_queue w', completions w'))
        (Promise_complete ?A 5 (Value 7) ?w) = Inr ([], [0], [(5, Value 7)])"
    by (simp add: empty_world_def)
  moreover from r have "map_sum id (\<lambda>w'. (host_calls w', main_queue w', deleted w'))
        (resolve ?A 0 (Completed (Value 7)) ?w) = Inr ([], [0], [])"
    by (simp add: empty_world_def)
  ultimately show ?thesis
    using a h c k by blast
qed

end
